theory Spec2Isabelle
  imports Complex_Main "HOL-Library.Word"
begin

unbundle bit_operations_syntax

section \<open>The MAX31855 driver of \<^verbatim>\<open>software/adafruit_max31855.py\<close>\<close>

text \<open>
  The driver reads a 4-byte frame from the amplifier over SPI into the buffer
  \<^verbatim>\<open>self.data\<close>, rejects the frame when one of its fault bits is set, and
  otherwise decodes two big-endian signed 16-bit words from it.

  Conventions of the embedding:
  \<^item> the buffer \<^verbatim>\<open>bytearray(4)\<close> is a record of four bytes;
  \<^item> Python's unbounded \<^verbatim>\<open>int\<close> is \<open>int\<close>; \<^verbatim>\<open>>>\<close> on it is
    \<open>drop_bit\<close>, which rounds towards minus infinity as Python does;
  \<^item> Python's \<^verbatim>\<open>float\<close> is \<open>real\<close>: the arithmetic is taken exact and a
    decimal literal denotes its decimal value. A literal \<^verbatim>\<open>mE-k\<close> of the
    source is written \<open>m / 10 ^ k\<close>, and \<^verbatim>\<open>mE+k\<close> is written \<open>m * 10 ^ k\<close>;
  \<^item> every \<^verbatim>\<open>raise RuntimeError(...)\<close> is a value of the type \<open>error\<close>,
    returned as \<open>Inl\<close>;
  \<^item> the SPI device, which is not part of the driver, is the sequence of frames
    it delivers: \<open>spi_device self k\<close> is the frame that the transaction
    number \<open>k\<close> puts into the buffer, and \<open>transactions self\<close> counts the
    transactions made so far.
\<close>

subsection \<open>Data\<close>

record frame =
  byte0 :: "8 word"
  byte1 :: "8 word"
  byte2 :: "8 word"
  byte3 :: "8 word"

text \<open>
  The messages of the five \<^verbatim>\<open>RuntimeError\<close>s of the source, in the order of
  their occurrence: "thermocouple not connected", "short circuit to ground",
  "short circuit to power", "faulty reading" and
  "Total thermoelectric voltage out of range:" followed by the voltage.
\<close>

datatype error =
  NotConnected
  | ShortToGround
  | ShortToPower
  | FaultyReading
  | VoltageOutOfRange real

record max31855 =
  spi_device :: "nat \<Rightarrow> frame"
  transactions :: nat
  data :: frame

subsection \<open>Reading a frame\<close>

text \<open>\<^verbatim>\<open>with self.spi_device as spi: spi.readinto(self.data)\<close>\<close>

definition readinto :: "max31855 \<Rightarrow> max31855" where
  "readinto self =
     self\<lparr>data := spi_device self (transactions self),
          transactions := Suc (transactions self)\<rparr>"

text \<open>\<^verbatim>\<open>struct.unpack('>hh', self.data)\<close>: two big-endian signed 16-bit integers.\<close>

definition unpack_hh :: "frame \<Rightarrow> int \<times> int" where
  "unpack_hh d =
     (sint (word_cat (byte0 d) (byte1 d) :: 16 word),
      sint (word_cat (byte2 d) (byte3 d) :: 16 word))"

definition MAX31855_read :: "max31855 \<Rightarrow> bool \<Rightarrow> (error + int) \<times> max31855" where
  "MAX31855_read self0 internal =
     (let self = readinto self0 in
      if byte3 (data self) AND 0x01 \<noteq> 0 then (Inl NotConnected, self)
      else if byte3 (data self) AND 0x02 \<noteq> 0 then (Inl ShortToGround, self)
      else if byte3 (data self) AND 0x04 \<noteq> 0 then (Inl ShortToPower, self)
      else if byte1 (data self) AND 0x01 \<noteq> 0 then (Inl FaultyReading, self)
      else
        (let (temp, refer) = unpack_hh (data self);
             refer = drop_bit 4 refer;
             temp = drop_bit 2 temp
         in if internal then (Inr refer, self) else (Inr temp, self)))"

subsection \<open>The two plain temperatures\<close>

definition temperature :: "max31855 \<Rightarrow> (error + real) \<times> max31855" where
  "temperature self =
     (case MAX31855_read self False of
        (Inl e, self') \<Rightarrow> (Inl e, self')
      | (Inr v, self') \<Rightarrow> (Inr (real_of_int v / 4), self'))"

definition reference_temperature :: "max31855 \<Rightarrow> (error + real) \<times> max31855" where
  "reference_temperature self =
     (case MAX31855_read self True of
        (Inl e, self') \<Rightarrow> (Inl e, self')
      | (Inr v, self') \<Rightarrow> (Inr (real_of_int v * 0.0625), self'))"

subsection \<open>The NIST approximation\<close>

text \<open>Lines 109 to 131: the cold junction equivalent thermocouple voltage.\<close>

definition VREF :: "real \<Rightarrow> real" where
  "VREF TAMB =
     (if TAMB \<ge> 0 then
        (- 0.176004136860 / 10 ^ 1 +
           0.389212049750 / 10 ^ 1 * TAMB +
           0.185587700320 / 10 ^ 4 * TAMB ^ 2 +
         - 0.994575928740 / 10 ^ 7 * TAMB ^ 3 +
           0.318409457190 / 10 ^ 9 * TAMB ^ 4 +
         - 0.560728448890 / 10 ^ 12 * TAMB ^ 5 +
           0.560750590590 / 10 ^ 15 * TAMB ^ 6 +
         - 0.320207200030 / 10 ^ 18 * TAMB ^ 7 +
           0.971511471520 / 10 ^ 22 * TAMB ^ 8 +
         - 0.121047212750 / 10 ^ 25 * TAMB ^ 9 +
           0.1185976 * exp (- 0.1183432 / 10 ^ 3 * (TAMB - 0.1269686 * 10 ^ 3) ^ 2))
      else
        (  0.394501280250 / 10 ^ 1 * TAMB +
           0.236223735980 / 10 ^ 4 * TAMB ^ 2 +
         - 0.328589067840 / 10 ^ 6 * TAMB ^ 3 +
         - 0.499048287770 / 10 ^ 8 * TAMB ^ 4 +
         - 0.675090591730 / 10 ^ 10 * TAMB ^ 5 +
         - 0.574103274280 / 10 ^ 12 * TAMB ^ 6 +
         - 0.310888728940 / 10 ^ 14 * TAMB ^ 7 +
         - 0.104516093650 / 10 ^ 16 * TAMB ^ 8 +
         - 0.198892668780 / 10 ^ 19 * TAMB ^ 9 +
         - 0.163226974860 / 10 ^ 22 * TAMB ^ 10))"

text \<open>Lines 137 to 145, 147 to 156 and 158 to 164: the three coefficient tuples.\<close>

definition DCOEF_1 :: "real list" where
  "DCOEF_1 =
     [0.0000000 * 10 ^ 0,
      2.5173462 * 10 ^ 1,
      - 1.1662878 * 10 ^ 0,
      - 1.0833638 * 10 ^ 0,
      - 8.9773540 / 10 ^ 1,
      - 3.7342377 / 10 ^ 1,
      - 8.6632643 / 10 ^ 2,
      - 1.0450598 / 10 ^ 2,
      - 5.1920577 / 10 ^ 4]"

definition DCOEF_2 :: "real list" where
  "DCOEF_2 =
     [0.000000 * 10 ^ 0,
      2.508355 * 10 ^ 1,
      7.860106 / 10 ^ 2,
      - 2.503131 / 10 ^ 1,
      8.315270 / 10 ^ 2,
      - 1.228034 / 10 ^ 2,
      9.804036 / 10 ^ 4,
      - 4.413030 / 10 ^ 5,
      1.057734 / 10 ^ 6,
      - 1.052755 / 10 ^ 8]"

definition DCOEF_3 :: "real list" where
  "DCOEF_3 =
     [- 1.318058 * 10 ^ 2,
      4.830222 * 10 ^ 1,
      - 1.646031 * 10 ^ 0,
      5.464731 / 10 ^ 2,
      - 9.650715 / 10 ^ 4,
      8.802193 / 10 ^ 6,
      - 3.110810 / 10 ^ 8]"

text \<open>Lines 136 to 166: the choice of the tuple, or the error carrying the voltage.\<close>

definition DCOEF :: "real \<Rightarrow> error + real list" where
  "DCOEF VTOTAL =
     (if - 5.891 \<le> VTOTAL \<and> VTOTAL \<le> 0 then Inr DCOEF_1
      else if 0 < VTOTAL \<and> VTOTAL \<le> 20.644 then Inr DCOEF_2
      else if 20.644 < VTOTAL \<and> VTOTAL \<le> 54.886 then Inr DCOEF_3
      else Inl (VoltageOutOfRange VTOTAL))"

text \<open>
  Lines 168 to 170: the loop
  \<^verbatim>\<open>for n, c in enumerate(DCOEF): TEMPERATURE += c * math.pow(VTOTAL, n)\<close>
  started from \<^verbatim>\<open>TEMPERATURE = 0\<close>.
\<close>

definition compute_temperature :: "real list \<Rightarrow> real \<Rightarrow> real" where
  "compute_temperature coefs VTOTAL =
     fold (\<lambda>(n, c) TEMPERATURE. TEMPERATURE + c * VTOTAL ^ n) (enumerate 0 coefs) 0"

definition temperature_NIST :: "max31855 \<Rightarrow> (error + real) \<times> max31855" where
  "temperature_NIST self =
     (case temperature self of
        (Inl e, self1) \<Rightarrow> (Inl e, self1)
      | (Inr TR, self1) \<Rightarrow>
          (case reference_temperature self1 of
             (Inl e, self2) \<Rightarrow> (Inl e, self2)
           | (Inr TAMB, self2) \<Rightarrow>
               (let VOUT = 0.041276 * (TR - TAMB);
                    VTOTAL = VOUT + VREF TAMB
                in case DCOEF VTOTAL of
                     Inl e \<Rightarrow> (Inl e, self2)
                   | Inr coefs \<Rightarrow> (Inr (compute_temperature coefs VTOTAL), self2))))"

subsection \<open>Vocabulary of the specification\<close>

text \<open>
  The specification speaks of the thermocouple word and of the reference word of a
  frame, of their arithmetic right shifts, and of fault bits by position. These
  definitions follow its words; the theorems below relate them to the driver.
\<close>

definition thermocouple_word :: "frame \<Rightarrow> 16 word" where
  "thermocouple_word f = word_cat (byte0 f) (byte1 f)"

definition reference_word :: "frame \<Rightarrow> 16 word" where
  "reference_word f = word_cat (byte2 f) (byte3 f)"

fun fault_bit :: "error \<Rightarrow> frame \<Rightarrow> bool" where
  "fault_bit NotConnected f = bit (byte3 f) 0"
| "fault_bit ShortToGround f = bit (byte3 f) 1"
| "fault_bit ShortToPower f = bit (byte3 f) 2"
| "fault_bit FaultyReading f = bit (byte1 f) 0"
| "fault_bit (VoltageOutOfRange v) f = False"

definition no_fault_bits :: "frame \<Rightarrow> bool" where
  "no_fault_bits f =
     (\<not> bit (byte3 f) 0 \<and> \<not> bit (byte3 f) 1 \<and> \<not> bit (byte3 f) 2 \<and> \<not> bit (byte1 f) 0)"

text \<open>
  The coefficients of the NIST ITS-90 reference function for type K thermocouples,
  written as plain decimals: for temperatures from 0 upward the constant term
  and the coefficients of the powers 1 to 9, and for temperatures below 0 the
  coefficients of the powers 1 to 10.
\<close>

definition NIST_K_nonneg :: "real list" where
  "NIST_K_nonneg =
     [- 0.0176004136860,
      0.0389212049750,
      0.0000185587700320,
      - 0.0000000994575928740,
      0.000000000318409457190,
      - 0.000000000000560728448890,
      0.000000000000000560750590590,
      - 0.000000000000000000320207200030,
      0.0000000000000000000000971511471520,
      - 0.0000000000000000000000000121047212750]"

definition NIST_K_negative :: "real list" where
  "NIST_K_negative =
     [0.0394501280250,
      0.0000236223735980,
      - 0.000000328589067840,
      - 0.00000000499048287770,
      - 0.0000000000675090591730,
      - 0.000000000000574103274280,
      - 0.00000000000000310888728940,
      - 0.0000000000000000104516093650,
      - 0.0000000000000000000198892668780,
      - 0.0000000000000000000000163226974860]"

subsection \<open>Concrete inputs\<close>

definition idle :: frame where
  "idle = \<lparr>byte0 = 0, byte1 = 0, byte2 = 0, byte3 = 0\<rparr>"

text \<open>A freshly constructed driver on a device that delivers the frames \<open>dev\<close>.\<close>

definition driver_on :: "(nat \<Rightarrow> frame) \<Rightarrow> max31855" where
  "driver_on dev = \<lparr>spi_device = dev, transactions = 0, data = idle\<rparr>"

definition frame_minus_quarter :: frame where
  "frame_minus_quarter = \<lparr>byte0 = 0xFF, byte1 = 0xFC, byte2 = 0xFF, byte3 = 0xF0\<rparr>"

definition frame_0CD00000 :: frame where
  "frame_0CD00000 = \<lparr>byte0 = 0x0C, byte1 = 0xD0, byte2 = 0x00, byte3 = 0x00\<rparr>"

definition frame_open_circuit :: frame where
  "frame_open_circuit = \<lparr>byte0 = 0x0C, byte1 = 0xD0, byte2 = 0x19, byte3 = 0x01\<rparr>"

definition frame_short_ground :: frame where
  "frame_short_ground = \<lparr>byte0 = 0x0C, byte1 = 0xD0, byte2 = 0x19, byte3 = 0x02\<rparr>"

definition frame_short_power :: frame where
  "frame_short_power = \<lparr>byte0 = 0x0C, byte1 = 0xD0, byte2 = 0x19, byte3 = 0x04\<rparr>"

definition frame_generic_fault :: frame where
  "frame_generic_fault = \<lparr>byte0 = 0x0C, byte1 = 0xD1, byte2 = 0x19, byte3 = 0x00\<rparr>"

definition frame_all_faults :: frame where
  "frame_all_faults = \<lparr>byte0 = 0x0C, byte1 = 0xD1, byte2 = 0x19, byte3 = 0x07\<rparr>"

text \<open>A device whose first frame is \<open>f\<close> and whose later frames are \<open>g\<close>.\<close>

definition first_then :: "frame \<Rightarrow> frame \<Rightarrow> nat \<Rightarrow> frame" where
  "first_then f g k = (if k = 0 then f else g)"

definition frame_reserved_bits :: frame where
  "frame_reserved_bits = \<lparr>byte0 = 0xFF, byte1 = 0xFE, byte2 = 0xFF, byte3 = 0xF8\<rparr>"

definition frame_hot :: frame where
  "frame_hot = \<lparr>byte0 = 0x7F, byte1 = 0xFC, byte2 = 0xFF, byte3 = 0xF0\<rparr>"

definition frame_205_minus_quarter :: frame where
  "frame_205_minus_quarter = \<lparr>byte0 = 0x0C, byte1 = 0xD0, byte2 = 0xFF, byte3 = 0xC0\<rparr>"

section \<open>Properties of the frame reader\<close>

lemma and_1_bit: "(b AND 0x01 \<noteq> 0) = bit b 0" for b :: "8 word"
  using bit_iff_and_push_bit_not_eq_0 [of b 0] by simp

lemma and_2_bit: "(b AND 0x02 \<noteq> 0) = bit b 1" for b :: "8 word"
  using bit_iff_and_push_bit_not_eq_0 [of b 1] by simp

lemma and_4_bit: "(b AND 0x04 \<noteq> 0) = bit b 2" for b :: "8 word"
  using bit_iff_and_push_bit_not_eq_0 [of b 2] by simp

lemma data_readinto: "data (readinto self) = spi_device self (transactions self)"
  by (simp add: readinto_def)

lemma read_by_bits:
  "MAX31855_read self internal =
     (if bit (byte3 (spi_device self (transactions self))) 0 then Inl NotConnected
      else if bit (byte3 (spi_device self (transactions self))) 1 then Inl ShortToGround
      else if bit (byte3 (spi_device self (transactions self))) 2 then Inl ShortToPower
      else if bit (byte1 (spi_device self (transactions self))) 0 then Inl FaultyReading
      else Inr (if internal
                then drop_bit 4 (snd (unpack_hh (spi_device self (transactions self))))
                else drop_bit 2 (fst (unpack_hh (spi_device self (transactions self))))),
      readinto self)"
  by (simp add: MAX31855_read_def Let_def and_1_bit and_2_bit and_4_bit data_readinto
      split: prod.splits)

lemma read_no_fault:
  assumes "no_fault_bits (spi_device self (transactions self))"
  shows "MAX31855_read self internal =
     (Inr (if internal
           then drop_bit 4 (sint (reference_word (spi_device self (transactions self))))
           else drop_bit 2 (sint (thermocouple_word (spi_device self (transactions self))))),
      readinto self)"
  using assms
  by (simp add: read_by_bits no_fault_bits_def unpack_hh_def thermocouple_word_def
      reference_word_def)

lemma read_fault:
  assumes "\<not> no_fault_bits (spi_device self (transactions self))"
  shows "\<exists>e. MAX31855_read self internal = (Inl e, readinto self)
           \<and> fault_bit e (spi_device self (transactions self))"
  using assms by (auto simp add: read_by_bits no_fault_bits_def)

lemma snd_read: "snd (MAX31855_read self internal) = readinto self"
  by (simp add: read_by_bits)

text \<open>
  Claim C1. When the frame that the device delivers has none of its four fault
  bits set, \<open>temperature\<close> returns the signed big-endian thermocouple word
  shifted right arithmetically by 2 and divided by 4.0, and
  \<open>reference_temperature\<close> returns the signed big-endian reference word shifted
  right arithmetically by 4 and multiplied by 0.0625.
\<close>

theorem plain_temperatures_decode:
  assumes "no_fault_bits (spi_device self (transactions self))"
  shows "temperature self =
           (Inr (real_of_int
                   (sint (signed_drop_bit 2 (thermocouple_word (spi_device self (transactions self)))))
                 / 4.0),
            readinto self)
       \<and> reference_temperature self =
           (Inr (real_of_int
                   (sint (signed_drop_bit 4 (reference_word (spi_device self (transactions self)))))
                 * 0.0625),
            readinto self)"
  using assms
  by (simp add: temperature_def reference_temperature_def read_no_fault
      sint_signed_drop_bit_eq)

theorem plain_temperatures_decode_witness:
  "no_fault_bits frame_minus_quarter
   \<and> temperature (driver_on (\<lambda>k. frame_minus_quarter))
       = (Inr (- 0.25), readinto (driver_on (\<lambda>k. frame_minus_quarter)))
   \<and> reference_temperature (driver_on (\<lambda>k. frame_minus_quarter))
       = (Inr (- 0.0625), readinto (driver_on (\<lambda>k. frame_minus_quarter)))"
proof -
  have nf: "no_fault_bits (spi_device (driver_on (\<lambda>k. frame_minus_quarter))
                (transactions (driver_on (\<lambda>k. frame_minus_quarter))))"
    by (simp add: no_fault_bits_def driver_on_def frame_minus_quarter_def)
  show ?thesis
    using nf plain_temperatures_decode [OF nf]
    by (simp add: driver_on_def frame_minus_quarter_def thermocouple_word_def
        reference_word_def word_cat_eq)
qed

text \<open>
  Claim C3. The frame reader fails with the fault kind that the status bits of
  the frame determine: bit 0 of byte 3 gives "thermocouple not connected", bit 1
  of byte 3 "short circuit to ground", bit 2 of byte 3 "short circuit to power"
  and bit 0 of byte 1 "faulty reading" (each when no earlier test fires). When any
  of the four bits is set the call fails with an error whose bit is set in the
  frame and returns no data; when none is set it returns data.
\<close>

theorem read_fault_kinds:
  "(\<not> no_fault_bits (spi_device self (transactions self)) \<longrightarrow>
      (\<exists>e. MAX31855_read self internal = (Inl e, readinto self)
           \<and> fault_bit e (spi_device self (transactions self))))
   \<and> (bit (byte3 (spi_device self (transactions self))) 0 \<longrightarrow>
        fst (MAX31855_read self internal) = Inl NotConnected)
   \<and> (bit (byte3 (spi_device self (transactions self))) 1
        \<and> \<not> bit (byte3 (spi_device self (transactions self))) 0 \<longrightarrow>
        fst (MAX31855_read self internal) = Inl ShortToGround)
   \<and> (bit (byte3 (spi_device self (transactions self))) 2
        \<and> \<not> bit (byte3 (spi_device self (transactions self))) 0
        \<and> \<not> bit (byte3 (spi_device self (transactions self))) 1 \<longrightarrow>
        fst (MAX31855_read self internal) = Inl ShortToPower)
   \<and> (bit (byte1 (spi_device self (transactions self))) 0
        \<and> \<not> bit (byte3 (spi_device self (transactions self))) 0
        \<and> \<not> bit (byte3 (spi_device self (transactions self))) 1
        \<and> \<not> bit (byte3 (spi_device self (transactions self))) 2 \<longrightarrow>
        fst (MAX31855_read self internal) = Inl FaultyReading)
   \<and> (no_fault_bits (spi_device self (transactions self)) \<longrightarrow>
        (\<exists>v. fst (MAX31855_read self internal) = Inr v))"
  using read_fault [of self internal]
  by (simp add: read_by_bits no_fault_bits_def)

theorem read_fault_kinds_witness:
  "fst (MAX31855_read (driver_on (\<lambda>k. frame_open_circuit)) True) = Inl NotConnected
   \<and> fst (MAX31855_read (driver_on (\<lambda>k. frame_short_ground)) True) = Inl ShortToGround
   \<and> fst (MAX31855_read (driver_on (\<lambda>k. frame_short_power)) False) = Inl ShortToPower
   \<and> fst (MAX31855_read (driver_on (\<lambda>k. frame_generic_fault)) False) = Inl FaultyReading
   \<and> (\<exists>v. fst (MAX31855_read (driver_on (\<lambda>k. idle)) False) = Inr v)
   \<and> \<not> no_fault_bits frame_open_circuit \<and> no_fault_bits idle"
  using read_fault_kinds [of "driver_on (\<lambda>k. frame_open_circuit)" True]
    read_fault_kinds [of "driver_on (\<lambda>k. frame_short_ground)" True]
    read_fault_kinds [of "driver_on (\<lambda>k. frame_short_power)" False]
    read_fault_kinds [of "driver_on (\<lambda>k. frame_generic_fault)" False]
    read_fault_kinds [of "driver_on (\<lambda>k. idle)" False]
  by (simp add: driver_on_def frame_open_circuit_def frame_short_ground_def
      frame_short_power_def frame_generic_fault_def idle_def no_fault_bits_def)

text \<open>
  Claim C10. When several fault bits are set in one frame, the frame reader
  reports exactly one fault, chosen by precedence: open circuit, then short to
  ground, then short to power, then the generic faulty reading.
\<close>

theorem read_fault_precedence:
  "\<not> no_fault_bits (spi_device self (transactions self)) \<longrightarrow>
     fst (MAX31855_read self internal) =
       Inl (if bit (byte3 (spi_device self (transactions self))) 0 then NotConnected
            else if bit (byte3 (spi_device self (transactions self))) 1 then ShortToGround
            else if bit (byte3 (spi_device self (transactions self))) 2 then ShortToPower
            else FaultyReading)"
  by (simp add: read_by_bits no_fault_bits_def)

theorem read_fault_precedence_witness:
  "\<not> no_fault_bits frame_all_faults
   \<and> fst (MAX31855_read (driver_on (\<lambda>k. frame_all_faults)) False) = Inl NotConnected
   \<and> fst (MAX31855_read (driver_on (\<lambda>k. frame_all_faults\<lparr>byte3 := 0x06\<rparr>)) False)
       = Inl ShortToGround
   \<and> fst (MAX31855_read (driver_on (\<lambda>k. frame_all_faults\<lparr>byte3 := 0x04\<rparr>)) False)
       = Inl ShortToPower
   \<and> fst (MAX31855_read (driver_on (\<lambda>k. frame_all_faults\<lparr>byte3 := 0x00\<rparr>)) False)
       = Inl FaultyReading"
  using read_fault_precedence [of "driver_on (\<lambda>k. frame_all_faults)" False]
    read_fault_precedence [of "driver_on (\<lambda>k. frame_all_faults\<lparr>byte3 := 0x06\<rparr>)" False]
    read_fault_precedence [of "driver_on (\<lambda>k. frame_all_faults\<lparr>byte3 := 0x04\<rparr>)" False]
    read_fault_precedence [of "driver_on (\<lambda>k. frame_all_faults\<lparr>byte3 := 0x00\<rparr>)" False]
  by (simp add: driver_on_def frame_all_faults_def no_fault_bits_def)

section \<open>Properties of the three temperature readings\<close>

lemma read_fault_any_flag:
  assumes "MAX31855_read self i = (Inl e, self')"
  shows "MAX31855_read self j = (Inl e, self')"
  using assms by (simp add: read_by_bits split: if_splits)

lemma temperature_fault:
  assumes "MAX31855_read self i = (Inl e, self')"
  shows "temperature self = (Inl e, self')"
  using read_fault_any_flag [OF assms, of False] by (simp add: temperature_def)

lemma reference_temperature_fault:
  assumes "MAX31855_read self i = (Inl e, self')"
  shows "reference_temperature self = (Inl e, self')"
  using read_fault_any_flag [OF assms, of True] by (simp add: reference_temperature_def)

lemma temperature_NIST_first_fault:
  assumes "temperature self = (Inl e, self')"
  shows "temperature_NIST self = (Inl e, self')"
  using assms by (simp add: temperature_NIST_def)

lemma temperature_NIST_second_fault:
  assumes "temperature self = (Inr TR, self1)"
    and "reference_temperature self1 = (Inl e, self2)"
  shows "temperature_NIST self = (Inl e, self2)"
  using assms by (simp add: temperature_NIST_def)

lemma temperature_no_fault:
  assumes "no_fault_bits (spi_device self (transactions self))"
  shows "temperature self =
     (Inr (real_of_int (drop_bit 2 (sint (thermocouple_word (spi_device self (transactions self))))) / 4),
      readinto self)"
  using assms by (simp add: temperature_def read_no_fault)

lemma reference_temperature_no_fault:
  assumes "no_fault_bits (spi_device self (transactions self))"
  shows "reference_temperature self =
     (Inr (real_of_int (drop_bit 4 (sint (reference_word (spi_device self (transactions self))))) * 0.0625),
      readinto self)"
  using assms by (simp add: reference_temperature_def read_no_fault)

lemma snd_temperature: "snd (temperature self) = readinto self"
  by (simp add: temperature_def read_by_bits)

lemma snd_reference_temperature: "snd (reference_temperature self) = readinto self"
  by (simp add: reference_temperature_def read_by_bits)

text \<open>
  The two plain temperatures are multiples of 1/4 and of 1/16 with numerators of
  at most 14 and 12 bits: binary floating point represents them exactly, so here
  the exact arithmetic of the embedding is the arithmetic of the source.
\<close>

lemma plain_temperatures_dyadic:
  assumes "no_fault_bits (spi_device self (transactions self))"
  shows "\<exists>k m. fst (temperature self) = Inr (real_of_int k / 4) \<and> - 8192 \<le> k \<and> k < 8192
           \<and> fst (reference_temperature self) = Inr (real_of_int m / 16)
           \<and> - 2048 \<le> m \<and> m < 2048"
proof -
  let ?t = "sint (thermocouple_word (spi_device self (transactions self)))"
  let ?r = "sint (reference_word (spi_device self (transactions self)))"
  have t: "- 32768 \<le> ?t \<and> ?t < 32768"
    using sint_ge [of "thermocouple_word (spi_device self (transactions self))"]
      sint_lt [of "thermocouple_word (spi_device self (transactions self))"] by simp
  have r: "- 32768 \<le> ?r \<and> ?r < 32768"
    using sint_ge [of "reference_word (spi_device self (transactions self))"]
      sint_lt [of "reference_word (spi_device self (transactions self))"] by simp
  have "- 8192 \<le> drop_bit 2 ?t \<and> drop_bit 2 ?t < 8192"
    using t by (simp add: drop_bit_eq_div) linarith
  moreover have "- 2048 \<le> drop_bit 4 ?r \<and> drop_bit 4 ?r < 2048"
    using r by (simp add: drop_bit_eq_div) linarith
  ultimately show ?thesis
    using assms by (simp add: temperature_no_fault reference_temperature_no_fault)
qed

text \<open>
  Claim C6. A fault reported by a frame read makes each of \<open>temperature\<close>,
  \<open>reference_temperature\<close> and \<open>temperature_NIST\<close> fail with that same error
  (an \<open>Inl\<close>, never a number); a fault reported by the second frame read of
  \<open>temperature_NIST\<close> makes it fail with that error too.
\<close>

theorem fault_propagates:
  "(MAX31855_read self internal = (Inl e, self') \<longrightarrow>
      temperature self = (Inl e, self')
      \<and> reference_temperature self = (Inl e, self')
      \<and> temperature_NIST self = (Inl e, self'))
   \<and> (temperature self = (Inr TR, self1) \<and> reference_temperature self1 = (Inl e, self2) \<longrightarrow>
        temperature_NIST self = (Inl e, self2))"
  by (simp add: temperature_fault reference_temperature_fault temperature_NIST_first_fault
      temperature_NIST_second_fault)

theorem fault_propagates_witness:
  "MAX31855_read (driver_on (\<lambda>k. frame_open_circuit)) False
     = (Inl NotConnected, readinto (driver_on (\<lambda>k. frame_open_circuit)))
   \<and> temperature (driver_on (\<lambda>k. frame_open_circuit))
     = (Inl NotConnected, readinto (driver_on (\<lambda>k. frame_open_circuit)))
   \<and> reference_temperature (driver_on (\<lambda>k. frame_open_circuit))
     = (Inl NotConnected, readinto (driver_on (\<lambda>k. frame_open_circuit)))
   \<and> temperature_NIST (driver_on (\<lambda>k. frame_open_circuit))
     = (Inl NotConnected, readinto (driver_on (\<lambda>k. frame_open_circuit)))
   \<and> temperature (driver_on (first_then frame_minus_quarter frame_short_ground))
     = (Inr (- 0.25), readinto (driver_on (first_then frame_minus_quarter frame_short_ground)))
   \<and> reference_temperature (readinto (driver_on (first_then frame_minus_quarter frame_short_ground)))
     = (Inl ShortToGround,
        readinto (readinto (driver_on (first_then frame_minus_quarter frame_short_ground))))
   \<and> temperature_NIST (driver_on (first_then frame_minus_quarter frame_short_ground))
     = (Inl ShortToGround,
        readinto (readinto (driver_on (first_then frame_minus_quarter frame_short_ground))))"
proof -
  let ?a = "driver_on (\<lambda>k. frame_open_circuit)"
  let ?b = "driver_on (first_then frame_minus_quarter frame_short_ground)"
  have a: "MAX31855_read ?a False = (Inl NotConnected, readinto ?a)"
    by (simp add: read_by_bits driver_on_def frame_open_circuit_def)
  have b1: "temperature ?b = (Inr (- 0.25), readinto ?b)"
    by (simp add: temperature_def read_by_bits driver_on_def first_then_def
        frame_minus_quarter_def unpack_hh_def word_cat_eq)
  have b2: "reference_temperature (readinto ?b) = (Inl ShortToGround, readinto (readinto ?b))"
    by (simp add: reference_temperature_def read_by_bits driver_on_def first_then_def
        frame_short_ground_def readinto_def)
  show ?thesis
    using a b1 b2
      fault_propagates [of ?a False NotConnected "readinto ?a"]
      fault_propagates [of ?b _ ShortToGround _ "- 0.25" "readinto ?b" "readinto (readinto ?b)"]
    by simp
qed

text \<open>
  Claim C7. For the frame 0x0C 0xD0 0x00 0x00 the thermocouple word is 0x0CD0,
  its shift by 2 is 0x0334 = 820 and \<open>temperature\<close> returns 205.0; the reference
  word is 0, its shift by 4 is 0 and \<open>reference_temperature\<close> returns 0.0. For
  every frame whose byte 3 is 0x01, \<open>reference_temperature\<close> fails with the open
  circuit error.
\<close>

theorem concrete_scenarios:
  "thermocouple_word frame_0CD00000 = 0x0CD0
   \<and> signed_drop_bit 2 (thermocouple_word frame_0CD00000) = 0x0334
   \<and> fst (MAX31855_read (driver_on (\<lambda>k. frame_0CD00000)) False) = Inr 820
   \<and> fst (temperature (driver_on (\<lambda>k. frame_0CD00000))) = Inr 205.0
   \<and> reference_word frame_0CD00000 = 0x0000
   \<and> fst (MAX31855_read (driver_on (\<lambda>k. frame_0CD00000)) True) = Inr 0
   \<and> fst (reference_temperature (driver_on (\<lambda>k. frame_0CD00000))) = Inr 0.0
   \<and> reference_temperature
        (self\<lparr>spi_device := (spi_device self)(transactions self := f\<lparr>byte3 := 0x01\<rparr>)\<rparr>)
      = (Inl NotConnected,
         readinto (self\<lparr>spi_device := (spi_device self)(transactions self := f\<lparr>byte3 := 0x01\<rparr>)\<rparr>))"
  by (simp add: reference_temperature_def temperature_def read_by_bits driver_on_def
      frame_0CD00000_def thermocouple_word_def reference_word_def unpack_hh_def word_cat_eq)

lemma snd_temperature_NIST:
  "snd (temperature_NIST self) =
     (if no_fault_bits (spi_device self (transactions self))
      then readinto (readinto self) else readinto self)"
proof (cases "no_fault_bits (spi_device self (transactions self))")
  case True
  have "snd (case reference_temperature (readinto self) of
               (Inl e, self2) \<Rightarrow> (Inl e, self2)
             | (Inr TAMB, self2) \<Rightarrow> g TAMB self2) = readinto (readinto self)"
    if "\<And>TAMB self2. snd (g TAMB self2) = self2" for g :: "real \<Rightarrow> max31855 \<Rightarrow> (error + real) \<times> max31855"
    using snd_reference_temperature [of "readinto self"] that
    by (cases "reference_temperature (readinto self)") (auto split: sum.splits)
  then show ?thesis using True
    by (simp add: temperature_NIST_def temperature_no_fault Let_def split: sum.splits)
next
  case False
  from read_fault [OF False, of False] obtain e where
    "MAX31855_read self False = (Inl e, readinto self)" by blast
  then show ?thesis using False
    by (simp add: temperature_NIST_def temperature_def)
qed

lemma read_ignores_buffer:
  "MAX31855_read (self\<lparr>data := d\<rparr>) internal = MAX31855_read self internal"
  by (simp add: read_by_bits readinto_def)

lemma temperature_NIST_second_frame_fault:
  assumes a: "no_fault_bits (spi_device self (transactions self))"
    and b: "\<not> no_fault_bits (spi_device self (transactions self + 1))"
  shows "\<exists>e. fst (temperature_NIST self) = Inl e
              \<and> fault_bit e (spi_device self (transactions self + 1))"
proof -
  from b have "\<not> no_fault_bits (spi_device (readinto self) (transactions (readinto self)))"
    by (simp add: readinto_def)
  from read_fault [OF this, of True] obtain e where
    e: "MAX31855_read (readinto self) True = (Inl e, readinto (readinto self))"
      "fault_bit e (spi_device self (transactions self + 1))"
    by (auto simp add: readinto_def)
  from e(1) have "reference_temperature (readinto self) = (Inl e, readinto (readinto self))"
    by (rule reference_temperature_fault)
  with temperature_no_fault [OF a] have "temperature_NIST self = (Inl e, readinto (readinto self))"
    by (rule temperature_NIST_second_fault)
  with e(2) show ?thesis by auto
qed

section \<open>Properties of the NIST approximation\<close>

lemma sum_10:
  "(\<Sum>n<10. f n) = f 0 + f 1 + f 2 + f 3 + f 4 + f 5 + f 6 + f 7 + f 8 + f 9"
  for f :: "nat \<Rightarrow> real"
  by (simp add: eval_nat_numeral lessThan_Suc)

lemma fold_power_series:
  "fold (\<lambda>(n, c) TEMPERATURE. TEMPERATURE + c * V ^ n) (enumerate k coefs) acc
     = acc + (\<Sum>n<length coefs. coefs ! n * V ^ (k + n))"
  for V :: real
proof (induction coefs arbitrary: k acc)
  case Nil
  then show ?case by simp
next
  case (Cons c coefs)
  have "fold (\<lambda>(n, c) TEMPERATURE. TEMPERATURE + c * V ^ n) (enumerate k (c # coefs)) acc
      = (acc + c * V ^ k) + (\<Sum>n<length coefs. coefs ! n * V ^ (Suc k + n))"
    using Cons.IH [of "Suc k" "acc + c * V ^ k"] by simp
  also have "\<dots> = acc + (\<Sum>n<length (c # coefs). (c # coefs) ! n * V ^ (k + n))"
    by (simp add: sum.lessThan_Suc_shift del: sum.lessThan_Suc)
  finally show ?case .
qed

lemma compute_temperature_sum:
  "compute_temperature coefs VTOTAL = (\<Sum>n<length coefs. coefs ! n * VTOTAL ^ n)"
  by (simp add: compute_temperature_def fold_power_series)

lemma temperature_NIST_after_reads:
  assumes "temperature self = (Inr TR, self1)"
    and "reference_temperature self1 = (Inr TAMB, self2)"
  shows "temperature_NIST self =
     (case DCOEF (0.041276 * (TR - TAMB) + VREF TAMB) of
        Inl e \<Rightarrow> (Inl e, self2)
      | Inr coefs \<Rightarrow>
          (Inr (compute_temperature coefs (0.041276 * (TR - TAMB) + VREF TAMB)), self2))"
  by (simp only: temperature_NIST_def Let_def assms prod.case sum.case)

lemma VREF_minus_sixteenth_bounds: "- 1 < VREF (- 0.0625) \<and> VREF (- 0.0625) < 0"
  by (simp add: VREF_def power_divide)

lemma temperature_minus_quarter:
  "temperature (driver_on (\<lambda>k. frame_minus_quarter))
     = (Inr (- 0.25), readinto (driver_on (\<lambda>k. frame_minus_quarter)))"
  by (simp add: temperature_def read_by_bits driver_on_def frame_minus_quarter_def
      unpack_hh_def word_cat_eq)

lemma reference_minus_sixteenth:
  "reference_temperature (readinto (driver_on (\<lambda>k. frame_minus_quarter)))
     = (Inr (- 0.0625), readinto (readinto (driver_on (\<lambda>k. frame_minus_quarter))))"
  by (simp add: reference_temperature_def read_by_bits driver_on_def frame_minus_quarter_def
      unpack_hh_def word_cat_eq readinto_def)

lemma DCOEF_band_1: "- 5.891 \<le> V \<Longrightarrow> V \<le> 0 \<Longrightarrow> DCOEF V = Inr DCOEF_1"
  by (simp add: DCOEF_def)

lemma DCOEF_band_2: "0 < V \<Longrightarrow> V \<le> 20.644 \<Longrightarrow> DCOEF V = Inr DCOEF_2"
  by (simp add: DCOEF_def)

lemma DCOEF_band_3: "20.644 < V \<Longrightarrow> V \<le> 54.886 \<Longrightarrow> DCOEF V = Inr DCOEF_3"
  by (simp add: DCOEF_def)

lemma DCOEF_outside:
  "V < - 5.891 \<or> 54.886 < V \<Longrightarrow> DCOEF V = Inl (VoltageOutOfRange V)"
  by (auto simp add: DCOEF_def)

lemma temperature_hot:
  "temperature (driver_on (\<lambda>k. frame_hot))
     = (Inr 2047.75, readinto (driver_on (\<lambda>k. frame_hot)))"
  by (simp add: temperature_def read_by_bits driver_on_def frame_hot_def
      unpack_hh_def word_cat_eq)

lemma reference_hot:
  "reference_temperature (readinto (driver_on (\<lambda>k. frame_hot)))
     = (Inr (- 0.0625), readinto (readinto (driver_on (\<lambda>k. frame_hot))))"
  by (simp add: reference_temperature_def read_by_bits driver_on_def frame_hot_def
      unpack_hh_def word_cat_eq readinto_def)

lemma temperature_reserved_bits:
  "temperature (driver_on (\<lambda>k. frame_reserved_bits)\<lparr>transactions := 7\<rparr>)
     = (Inr (- 0.25), readinto (driver_on (\<lambda>k. frame_reserved_bits)\<lparr>transactions := 7\<rparr>))"
  by (simp add: temperature_def read_by_bits driver_on_def frame_reserved_bits_def
      unpack_hh_def word_cat_eq)

lemma reference_reserved_bits:
  "reference_temperature (readinto (driver_on (\<lambda>k. frame_reserved_bits)\<lparr>transactions := 7\<rparr>))
     = (Inr (- 0.0625),
        readinto (readinto (driver_on (\<lambda>k. frame_reserved_bits)\<lparr>transactions := 7\<rparr>)))"
  by (simp add: reference_temperature_def read_by_bits driver_on_def frame_reserved_bits_def
      unpack_hh_def word_cat_eq readinto_def)

text \<open>
  Claim C5. The cold junction voltage \<open>VREF\<close> is, for every \<open>TAMB\<close> from 0
  upward (0 included), the polynomial of degree 9 with the NIST coefficients plus
  the exponential term 0.1185976 * exp (-0.1183432e-3 * (TAMB - 126.9686)^2), and
  for every \<open>TAMB\<close> below 0 the polynomial of the ten powers 1 to 10 with the
  NIST coefficients, without an exponential term.
\<close>

theorem VREF_branches:
  "(0 \<le> TAMB \<longrightarrow>
      VREF TAMB = (\<Sum>n<10. NIST_K_nonneg ! n * TAMB ^ n)
                  + 0.1185976 * exp (- 0.0001183432 * (TAMB - 126.9686) ^ 2))
   \<and> (TAMB < 0 \<longrightarrow> VREF TAMB = (\<Sum>n<10. NIST_K_negative ! n * TAMB ^ (n + 1)))"
  by (simp only: sum_10) (simp add: VREF_def NIST_K_nonneg_def NIST_K_negative_def power2_eq_square)

theorem VREF_branches_witness:
  "(0::real) \<le> 0
   \<and> VREF 0 = - 0.0176004136860 + 0.1185976 * exp (- 0.0001183432 * 126.9686 ^ 2)
   \<and> (- 0.0001 :: real) < 0
   \<and> VREF (- 0.0001) = (\<Sum>n<10. NIST_K_negative ! n * (- 0.0001) ^ (n + 1))"
  using VREF_branches [of 0] VREF_branches [of "- 0.0001"]
  by (simp add: sum_10 [of "\<lambda>n. NIST_K_nonneg ! n * 0 ^ n"] NIST_K_nonneg_def)

text \<open>
  Claim C2. The coefficient table is selected by the band that contains
  \<open>VTOTAL\<close>: from -5.891 to 0, both included, the table of 9 coefficients; above
  0 up to 20.644 included, the table of 10; above 20.644 up to 54.886 included,
  the table of 7; outside the three bands the error carrying \<open>VTOTAL\<close>. After
  two fault-free reads, \<open>temperature_NIST\<close> applies this choice to the voltage it
  computed, so it fails with that error when the voltage is outside the bands.
\<close>

theorem band_selection:
  "(- 5.891 \<le> VTOTAL \<and> VTOTAL \<le> 0 \<longrightarrow> DCOEF VTOTAL = Inr DCOEF_1)
   \<and> (0 < VTOTAL \<and> VTOTAL \<le> 20.644 \<longrightarrow> DCOEF VTOTAL = Inr DCOEF_2)
   \<and> (20.644 < VTOTAL \<and> VTOTAL \<le> 54.886 \<longrightarrow> DCOEF VTOTAL = Inr DCOEF_3)
   \<and> (VTOTAL < - 5.891 \<or> 54.886 < VTOTAL \<longrightarrow>
        DCOEF VTOTAL = Inl (VoltageOutOfRange VTOTAL))
   \<and> length DCOEF_1 = 9 \<and> length DCOEF_2 = 10 \<and> length DCOEF_3 = 7
   \<and> (temperature self = (Inr TR, self1)
        \<and> reference_temperature self1 = (Inr TAMB, self2)
        \<and> VTOTAL = 0.041276 * (TR - TAMB) + VREF TAMB \<longrightarrow>
        temperature_NIST self =
          (case DCOEF VTOTAL of
             Inl e \<Rightarrow> (Inl e, self2)
           | Inr coefs \<Rightarrow> (Inr (compute_temperature coefs VTOTAL), self2)))"
proof (intro conjI impI)
  show "length DCOEF_1 = 9" "length DCOEF_2 = 10" "length DCOEF_3 = 7"
    by (simp_all add: DCOEF_1_def DCOEF_2_def DCOEF_3_def)
next
  assume "- 5.891 \<le> VTOTAL \<and> VTOTAL \<le> 0"
  then show "DCOEF VTOTAL = Inr DCOEF_1" by (simp add: DCOEF_band_1)
next
  assume "0 < VTOTAL \<and> VTOTAL \<le> 20.644"
  then show "DCOEF VTOTAL = Inr DCOEF_2" by (simp add: DCOEF_band_2)
next
  assume "20.644 < VTOTAL \<and> VTOTAL \<le> 54.886"
  then show "DCOEF VTOTAL = Inr DCOEF_3" by (simp add: DCOEF_band_3)
next
  assume "VTOTAL < - 5.891 \<or> 54.886 < VTOTAL"
  then show "DCOEF VTOTAL = Inl (VoltageOutOfRange VTOTAL)" by (rule DCOEF_outside)
next
  assume a: "temperature self = (Inr TR, self1)
        \<and> reference_temperature self1 = (Inr TAMB, self2)
        \<and> VTOTAL = 0.041276 * (TR - TAMB) + VREF TAMB"
  then have "temperature self = (Inr TR, self1)"
    and "reference_temperature self1 = (Inr TAMB, self2)"
    and V: "0.041276 * (TR - TAMB) + VREF TAMB = VTOTAL"
    by (simp_all only:)
  from temperature_NIST_after_reads [OF this(1,2)]
  show "temperature_NIST self =
          (case DCOEF VTOTAL of
             Inl e \<Rightarrow> (Inl e, self2)
           | Inr coefs \<Rightarrow> (Inr (compute_temperature coefs VTOTAL), self2))"
    by (simp only: V)
qed

theorem band_selection_witness:
  "DCOEF (- 5.891) = Inr DCOEF_1 \<and> DCOEF 0 = Inr DCOEF_1
   \<and> DCOEF 0.001 = Inr DCOEF_2 \<and> DCOEF 20.644 = Inr DCOEF_2
   \<and> DCOEF 20.645 = Inr DCOEF_3 \<and> DCOEF 54.886 = Inr DCOEF_3
   \<and> DCOEF 54.887 = Inl (VoltageOutOfRange 54.887)
   \<and> DCOEF (- 5.892) = Inl (VoltageOutOfRange (- 5.892))
   \<and> temperature_NIST (driver_on (\<lambda>k. frame_hot))
       = (Inl (VoltageOutOfRange (0.041276 * (2047.75 - - 0.0625) + VREF (- 0.0625))),
          readinto (readinto (driver_on (\<lambda>k. frame_hot))))"
proof -
  have hot: "54.886 < 0.041276 * (2047.75 - - 0.0625) + VREF (- 0.0625)"
    using VREF_minus_sixteenth_bounds by simp
  have "temperature_NIST (driver_on (\<lambda>k. frame_hot))
       = (Inl (VoltageOutOfRange (0.041276 * (2047.75 - - 0.0625) + VREF (- 0.0625))),
          readinto (readinto (driver_on (\<lambda>k. frame_hot))))"
    using band_selection [of "0.041276 * (2047.75 - - 0.0625) + VREF (- 0.0625)"
        "driver_on (\<lambda>k. frame_hot)" "2047.75" "readinto (driver_on (\<lambda>k. frame_hot))"
        "- 0.0625" "readinto (readinto (driver_on (\<lambda>k. frame_hot)))"]
      hot temperature_hot reference_hot
    by (simp only: sum.case simp_thms)
  moreover have "DCOEF (- 5.891) = Inr DCOEF_1" "DCOEF 0 = Inr DCOEF_1"
    "DCOEF 0.001 = Inr DCOEF_2" "DCOEF 20.644 = Inr DCOEF_2"
    "DCOEF 20.645 = Inr DCOEF_3" "DCOEF 54.886 = Inr DCOEF_3"
    "DCOEF 54.887 = Inl (VoltageOutOfRange 54.887)"
    "DCOEF (- 5.892) = Inl (VoltageOutOfRange (- 5.892))"
    using band_selection [of "- 5.891"] band_selection [of 0] band_selection [of "0.001"]
      band_selection [of "20.644"] band_selection [of "20.645"] band_selection [of "54.886"]
      band_selection [of "54.887"] band_selection [of "- 5.892"]
    by simp_all
  ultimately show ?thesis by (simp only: simp_thms)
qed

text \<open>
  Claim C4. After two fault-free reads giving \<open>TR\<close> and \<open>TAMB\<close>,
  \<open>temperature_NIST\<close> computes VOUT = 0.041276 * (TR - TAMB) and
  VTOTAL = VOUT + VREF TAMB, and returns the sum of c_n * VTOTAL^n over the selected
  table, with n from 0 upward.
\<close>

theorem NIST_power_series:
  assumes "temperature self = (Inr TR, self1)"
    and "reference_temperature self1 = (Inr TAMB, self2)"
    and "VOUT = 0.041276 * (TR - TAMB)"
    and "VTOTAL = VOUT + VREF TAMB"
    and "DCOEF VTOTAL = Inr coefs"
  shows "temperature_NIST self = (Inr (\<Sum>n<length coefs. coefs ! n * VTOTAL ^ n), self2)"
proof -
  from assms(3,4) have V: "0.041276 * (TR - TAMB) + VREF TAMB = VTOTAL"
    by (simp only:)
  show ?thesis
    by (simp only: temperature_NIST_after_reads [OF assms(1,2)] V assms(5) sum.case
        compute_temperature_sum)
qed


theorem NIST_power_series_witness:
  "temperature_NIST (driver_on (\<lambda>k. frame_minus_quarter))
     = (Inr (\<Sum>n<length DCOEF_1.
               DCOEF_1 ! n * (0.041276 * (- 0.25 - - 0.0625) + VREF (- 0.0625)) ^ n),
        readinto (readinto (driver_on (\<lambda>k. frame_minus_quarter))))"
proof -
  have "- 5.891 \<le> 0.041276 * (- 0.25 - - 0.0625) + VREF (- 0.0625)"
    and "0.041276 * (- 0.25 - - 0.0625) + VREF (- 0.0625) \<le> 0"
    using VREF_minus_sixteenth_bounds by simp_all
  then have band: "DCOEF (0.041276 * (- 0.25 - - 0.0625) + VREF (- 0.0625)) = Inr DCOEF_1"
    by (rule DCOEF_band_1)
  show ?thesis
    by (rule NIST_power_series
        [OF temperature_minus_quarter reference_minus_sixteenth refl refl band])
qed

text \<open>
  Claim C9. The result of \<open>temperature_NIST\<close> is a function of \<open>TR\<close> and \<open>TAMB\<close>
  alone: two calls, on any two drivers, whose frame reads give the same \<open>TR\<close>
  and the same \<open>TAMB\<close> return the same result.
\<close>

theorem NIST_deterministic:
  assumes "temperature self = (Inr TR, self1)"
    and "reference_temperature self1 = (Inr TAMB, self2)"
    and "temperature other = (Inr TR, other1)"
    and "reference_temperature other1 = (Inr TAMB, other2)"
  shows "fst (temperature_NIST self) = fst (temperature_NIST other)"
  by (simp only: temperature_NIST_after_reads [OF assms(1,2)]
      temperature_NIST_after_reads [OF assms(3,4)])
    (simp split: sum.splits)

theorem NIST_deterministic_witness:
  "frame_reserved_bits \<noteq> frame_minus_quarter
   \<and> fst (temperature_NIST (driver_on (\<lambda>k. frame_minus_quarter)))
       = fst (temperature_NIST (driver_on (\<lambda>k. frame_reserved_bits)\<lparr>transactions := 7\<rparr>))"
proof -
  have "frame_reserved_bits \<noteq> frame_minus_quarter"
    by (simp add: frame_reserved_bits_def frame_minus_quarter_def)
  with NIST_deterministic [OF temperature_minus_quarter reference_minus_sixteenth
      temperature_reserved_bits reference_reserved_bits]
  show ?thesis by (simp only: simp_thms)
qed

section \<open>Bus transactions of the readings\<close>

lemma fst_case_sum_pair:
  "fst (case x of Inl e \<Rightarrow> (Inl e, s) | Inr c \<Rightarrow> (Inr (g c), s))
     = (case x of Inl e \<Rightarrow> Inl e | Inr c \<Rightarrow> Inr (g c))"
  by (cases x) simp_all

lemma spi_device_readinto:
  "spi_device (readinto self) (transactions (readinto self))
     = spi_device self (transactions self + 1)"
  by (simp add: readinto_def)

lemma temperature_NIST_both_frames:
  assumes a: "no_fault_bits (spi_device self (transactions self))"
    and b: "no_fault_bits (spi_device self (transactions self + 1))"
  shows "temperature_NIST self =
     (case DCOEF
             (0.041276
                * (real_of_int (sint (signed_drop_bit 2
                     (thermocouple_word (spi_device self (transactions self))))) / 4.0
                   - real_of_int (sint (signed_drop_bit 4
                       (reference_word (spi_device self (transactions self + 1))))) * 0.0625)
              + VREF (real_of_int (sint (signed_drop_bit 4
                       (reference_word (spi_device self (transactions self + 1))))) * 0.0625)) of
        Inl e \<Rightarrow> (Inl e, readinto (readinto self))
      | Inr coefs \<Rightarrow>
          (Inr (compute_temperature coefs
                  (0.041276
                     * (real_of_int (sint (signed_drop_bit 2
                          (thermocouple_word (spi_device self (transactions self))))) / 4.0
                        - real_of_int (sint (signed_drop_bit 4
                            (reference_word (spi_device self (transactions self + 1))))) * 0.0625)
                   + VREF (real_of_int (sint (signed_drop_bit 4
                       (reference_word (spi_device self (transactions self + 1))))) * 0.0625))),
           readinto (readinto self)))"
proof -
  have t: "temperature self =
      (Inr (real_of_int (sint (signed_drop_bit 2
              (thermocouple_word (spi_device self (transactions self))))) / 4.0),
       readinto self)"
    using temperature_no_fault [OF a] by (simp add: sint_signed_drop_bit_eq)
  from b have "no_fault_bits (spi_device (readinto self) (transactions (readinto self)))"
    by (simp only: spi_device_readinto)
  from reference_temperature_no_fault [OF this]
  have r: "reference_temperature (readinto self) =
      (Inr (real_of_int (sint (signed_drop_bit 4
              (reference_word (spi_device self (transactions self + 1))))) * 0.0625),
       readinto (readinto self))"
    by (simp only: spi_device_readinto sint_signed_drop_bit_eq)
  show ?thesis by (rule temperature_NIST_after_reads [OF t r])
qed

lemma VREF_minus_quarter_bounds: "- 1 < VREF (- 0.25) \<and> VREF (- 0.25) < 0"
  by (simp add: VREF_def power_divide)

text \<open>
  Claim C8, as stated, fails: when the first frame of a \<open>temperature_NIST\<close> call
  reports a fault, the call makes one bus transaction, not two.
\<close>

theorem NIST_two_transactions_counterexample:
  "transactions (driver_on (\<lambda>k. frame_open_circuit)) = 0
   \<and> transactions (snd (temperature_NIST (driver_on (\<lambda>k. frame_open_circuit)))) = 1
   \<and> transactions (snd (temperature_NIST (driver_on (\<lambda>k. frame_open_circuit))))
       \<noteq> transactions (driver_on (\<lambda>k. frame_open_circuit)) + 2"
  by (simp add: temperature_NIST_def temperature_def read_by_bits driver_on_def
      frame_open_circuit_def readinto_def)

text \<open>
  Claim C8, amended. Every call of the frame reader makes exactly one bus
  transaction, puts the fresh frame into the buffer and does not depend on what
  the buffer held before. A call of \<open>temperature_NIST\<close> makes exactly two
  transactions when its first frame has no fault bit set: \<open>TR\<close> is decoded from
  the thermocouple word of the first frame and \<open>TAMB\<close> from the reference word
  of the second, freshly read frame, whose fault bits the call reports. It makes
  exactly one transaction when its first frame has a fault bit set.
\<close>

theorem bus_transactions:
  "transactions (snd (MAX31855_read self internal)) = transactions self + 1
   \<and> data (snd (MAX31855_read self internal)) = spi_device self (transactions self)
   \<and> MAX31855_read (self\<lparr>data := d\<rparr>) internal = MAX31855_read self internal
   \<and> (no_fault_bits (spi_device self (transactions self)) \<longrightarrow>
        transactions (snd (temperature_NIST self)) = transactions self + 2
        \<and> data (snd (temperature_NIST self)) = spi_device self (transactions self + 1))
   \<and> (no_fault_bits (spi_device self (transactions self))
        \<and> no_fault_bits (spi_device self (transactions self + 1)) \<longrightarrow>
        fst (temperature_NIST self) =
          (let TR = real_of_int (sint (signed_drop_bit 2
                      (thermocouple_word (spi_device self (transactions self))))) / 4.0;
               TAMB = real_of_int (sint (signed_drop_bit 4
                        (reference_word (spi_device self (transactions self + 1))))) * 0.0625;
               VTOTAL = 0.041276 * (TR - TAMB) + VREF TAMB
           in case DCOEF VTOTAL of
                Inl e \<Rightarrow> Inl e
              | Inr coefs \<Rightarrow> Inr (compute_temperature coefs VTOTAL)))
   \<and> (no_fault_bits (spi_device self (transactions self))
        \<and> \<not> no_fault_bits (spi_device self (transactions self + 1)) \<longrightarrow>
        (\<exists>e. fst (temperature_NIST self) = Inl e
              \<and> fault_bit e (spi_device self (transactions self + 1))))
   \<and> (\<not> no_fault_bits (spi_device self (transactions self)) \<longrightarrow>
        transactions (snd (temperature_NIST self)) = transactions self + 1)"
proof (intro conjI impI)
  show "transactions (snd (MAX31855_read self internal)) = transactions self + 1"
    by (simp add: snd_read readinto_def)
  show "data (snd (MAX31855_read self internal)) = spi_device self (transactions self)"
    by (simp add: snd_read readinto_def)
  show "MAX31855_read (self\<lparr>data := d\<rparr>) internal = MAX31855_read self internal"
    by (rule read_ignores_buffer)
next
  assume "no_fault_bits (spi_device self (transactions self))"
  then show "transactions (snd (temperature_NIST self)) = transactions self + 2"
    and "data (snd (temperature_NIST self)) = spi_device self (transactions self + 1)"
    by (simp_all add: snd_temperature_NIST readinto_def)
next
  assume "no_fault_bits (spi_device self (transactions self))
        \<and> no_fault_bits (spi_device self (transactions self + 1))"
  then have a: "no_fault_bits (spi_device self (transactions self))"
    and b: "no_fault_bits (spi_device self (transactions self + 1))"
    by (simp_all only:)
  show "fst (temperature_NIST self) =
          (let TR = real_of_int (sint (signed_drop_bit 2
                      (thermocouple_word (spi_device self (transactions self))))) / 4.0;
               TAMB = real_of_int (sint (signed_drop_bit 4
                        (reference_word (spi_device self (transactions self + 1))))) * 0.0625;
               VTOTAL = 0.041276 * (TR - TAMB) + VREF TAMB
           in case DCOEF VTOTAL of
                Inl e \<Rightarrow> Inl e
              | Inr coefs \<Rightarrow> Inr (compute_temperature coefs VTOTAL))"
    by (simp only: temperature_NIST_both_frames [OF a b] Let_def fst_case_sum_pair)
next
  assume "no_fault_bits (spi_device self (transactions self))
        \<and> \<not> no_fault_bits (spi_device self (transactions self + 1))"
  then show "\<exists>e. fst (temperature_NIST self) = Inl e
              \<and> fault_bit e (spi_device self (transactions self + 1))"
    using temperature_NIST_second_frame_fault [of self] by simp
next
  assume "\<not> no_fault_bits (spi_device self (transactions self))"
  then show "transactions (snd (temperature_NIST self)) = transactions self + 1"
    by (simp add: snd_temperature_NIST readinto_def)
qed

theorem bus_transactions_witness:
  "transactions (snd (MAX31855_read (driver_on (\<lambda>k. frame_minus_quarter)) False)) = 1
   \<and> no_fault_bits frame_minus_quarter
   \<and> transactions (snd (temperature_NIST (driver_on (\<lambda>k. frame_minus_quarter)))) = 2
   \<and> no_fault_bits frame_205_minus_quarter
   \<and> fst (temperature_NIST (driver_on (first_then frame_minus_quarter frame_205_minus_quarter)))
       = Inr (compute_temperature DCOEF_1 (0.041276 * (- 0.25 - - 0.25) + VREF (- 0.25)))
   \<and> \<not> no_fault_bits frame_short_ground
   \<and> (\<exists>e. fst (temperature_NIST (driver_on (first_then frame_minus_quarter frame_short_ground)))
            = Inl e \<and> fault_bit e frame_short_ground)
   \<and> transactions (snd (temperature_NIST (driver_on (\<lambda>k. frame_short_ground)))) = 1"
proof -
  let ?a = "driver_on (\<lambda>k. frame_minus_quarter)"
  let ?b = "driver_on (first_then frame_minus_quarter frame_short_ground)"
  let ?c = "driver_on (\<lambda>k. frame_short_ground)"
  let ?d = "driver_on (first_then frame_minus_quarter frame_205_minus_quarter)"
  have ok: "no_fault_bits frame_minus_quarter"
    by (simp add: no_fault_bits_def frame_minus_quarter_def)
  have ok': "no_fault_bits frame_205_minus_quarter"
    by (simp add: no_fault_bits_def frame_205_minus_quarter_def)
  have bad: "\<not> no_fault_bits frame_short_ground"
    by (simp add: no_fault_bits_def frame_short_ground_def)
  have 1: "transactions (snd (MAX31855_read ?a False)) = 1"
    using bus_transactions [of ?a False] by (simp add: driver_on_def)
  have 2: "transactions (snd (temperature_NIST ?a)) = 2"
    using bus_transactions [of ?a False] ok by (simp add: driver_on_def)
  have 3: "\<exists>e. fst (temperature_NIST ?b) = Inl e \<and> fault_bit e frame_short_ground"
    using bus_transactions [of ?b False] ok bad by (simp add: driver_on_def first_then_def)
  have 4: "transactions (snd (temperature_NIST ?c)) = 1"
    using bus_transactions [of ?c False] bad by (simp add: driver_on_def)
  have tr: "real_of_int (sint (signed_drop_bit 2 (thermocouple_word frame_minus_quarter))) / 4.0
      = - 0.25"
    by (simp add: thermocouple_word_def frame_minus_quarter_def word_cat_eq)
  have tamb: "real_of_int (sint (signed_drop_bit 4 (reference_word frame_205_minus_quarter)))
      * 0.0625 = - 0.25"
    by (simp add: reference_word_def frame_205_minus_quarter_def word_cat_eq)
  have band: "DCOEF (0.041276 * (- 0.25 - - 0.25) + VREF (- 0.25)) = Inr DCOEF_1"
    using VREF_minus_quarter_bounds by (intro DCOEF_band_1) simp_all
  have dev: "spi_device ?d (transactions ?d) = frame_minus_quarter"
    "spi_device ?d (transactions ?d + 1) = frame_205_minus_quarter"
    by (simp_all add: driver_on_def first_then_def)
  have 5: "fst (temperature_NIST ?d)
      = Inr (compute_temperature DCOEF_1 (0.041276 * (- 0.25 - - 0.25) + VREF (- 0.25)))"
    using bus_transactions [of ?d False] ok ok'
    by (simp only: dev tr tamb Let_def band sum.case simp_thms)
  from ok ok' bad 1 2 3 4 5 show ?thesis by (simp only: simp_thms)
qed

end
